theory Spec2Isabelle
  imports Complex_Main "HOL-Library.Multiset"
begin

section \<open>Errors, numbers and insertion-ordered maps\<close>

text \<open>
  The source throws plain \<open>Error\<close> objects that differ by their message. They are
  grouped here the way the specification names them:
  \<^item> \<open>ValidationError\<close>: every throw of \<open>Argument.validateArgument\<close> and of
    \<open>Argument.updateConfidence\<close>;
  \<^item> \<open>DuplicateIdError\<close>: "Argument with ID ... already exists";
  \<^item> \<open>UnknownReferenceError\<close>: "Both arguments must exist in the graph" and
    "Invalid argument IDs for synthesis";
  \<^item> \<open>InvalidInputError\<close>: "Synthesis requires at least 2 arguments";
  \<^item> \<open>TypeError\<close>: the runtime's own error for a property read on \<open>undefined\<close>;
  \<^item> \<open>SyntaxError\<close>: the runtime's own error for source text that it refuses to
    evaluate.
\<close>

datatype error =
  ValidationError | DuplicateIdError | UnknownReferenceError | InvalidInputError | TypeError
  | SyntaxError

text \<open>
  A JavaScript number is modelled as a real number or \<open>NaN\<close>. Rounding of doubles and
  the infinities are not modelled: no division of the source has a non-zero numerator
  over a zero denominator.
\<close>

datatype jsnum = Num real | NaN

text \<open>
  A value that is a number or \<open>undefined\<close> (\<open>None\<close>), as a number: \<open>undefined\<close> converts
  to \<open>NaN\<close>.
\<close>

fun toNumber :: "jsnum option \<Rightarrow> jsnum" where
  "toNumber None = NaN"
| "toNumber (Some x) = x"

fun jadd :: "jsnum \<Rightarrow> jsnum \<Rightarrow> jsnum" where
  "jadd (Num a) (Num b) = Num (a + b)"
| "jadd _ _ = NaN"

fun jsub :: "jsnum \<Rightarrow> jsnum \<Rightarrow> jsnum" where
  "jsub (Num a) (Num b) = Num (a - b)"
| "jsub _ _ = NaN"

fun jmul :: "jsnum \<Rightarrow> jsnum \<Rightarrow> jsnum" where
  "jmul (Num a) (Num b) = Num (a * b)"
| "jmul _ _ = NaN"

text \<open>\<open>Math.min\<close> and \<open>Math.max\<close> return \<open>NaN\<close> as soon as one operand is \<open>NaN\<close>.\<close>

fun Math_min :: "jsnum \<Rightarrow> jsnum \<Rightarrow> jsnum" where
  "Math_min (Num a) (Num b) = Num (min a b)"
| "Math_min _ _ = NaN"

fun Math_max :: "jsnum \<Rightarrow> jsnum \<Rightarrow> jsnum" where
  "Math_max (Num a) (Num b) = Num (max a b)"
| "Math_max _ _ = NaN"


text \<open>Every comparison with \<open>NaN\<close> is false.\<close>

fun jlt :: "jsnum \<Rightarrow> jsnum \<Rightarrow> bool" where
  "jlt (Num a) (Num b) = (a < b)"
| "jlt _ _ = False"

fun jgt :: "jsnum \<Rightarrow> jsnum \<Rightarrow> bool" where
  "jgt (Num a) (Num b) = (a > b)"
| "jgt _ _ = False"

text \<open>
  Division: \<open>0 / 0\<close> is \<open>NaN\<close>. A non-zero number over zero would be an infinity, which
  the model does not have; the source never divides that way: each of its denominators
  is positive, or is the length of a list of which the numerator counts a part.
\<close>

fun jdiv :: "jsnum \<Rightarrow> jsnum \<Rightarrow> jsnum" where
  "jdiv (Num a) (Num b) = (if b = 0 then NaN else Num (a / b))"
| "jdiv _ _ = NaN"

definition of_length :: "'a list \<Rightarrow> jsnum" where
  "of_length xs = Num (real (length xs))"

text \<open>
  In range means: a number from 0 to 1. \<open>NaN\<close> is not in range.
\<close>

fun in_unit_interval :: "jsnum \<Rightarrow> bool" where
  "in_unit_interval (Num x) = (0 \<le> x \<and> x \<le> 1)"
| "in_unit_interval NaN = False"

text \<open>
  A JavaScript \<open>Map\<close> keeps its keys in insertion order; \<open>set\<close> on a key that is present
  replaces the value in place. It is modelled as an association list with \<open>map_of\<close> for
  \<open>get\<close>.
\<close>

fun Map_set :: "'k \<Rightarrow> 'v \<Rightarrow> ('k \<times> 'v) list \<Rightarrow> ('k \<times> 'v) list" where
  "Map_set k v [] = [(k, v)]"
| "Map_set k v ((k', v') # m) = (if k' = k then (k, v) # m else (k', v') # Map_set k v m)"

definition Map_has :: "'k \<Rightarrow> ('k \<times> 'v) list \<Rightarrow> bool" where
  "Map_has k m = (k \<in> set (map fst m))"

definition Map_values :: "('k \<times> 'v) list \<Rightarrow> 'v list" where
  "Map_values m = map snd m"

text \<open>
  \<open>forEach\<close> with a callback that may throw: the loop stops at the first throw and the
  state is the one reached at that point.
\<close>

fun forEach_throwing ::
  "('a \<Rightarrow> 's \<Rightarrow> error option \<times> 's) \<Rightarrow> 'a list \<Rightarrow> 's \<Rightarrow> error option \<times> 's" where
  "forEach_throwing f [] s = (None, s)"
| "forEach_throwing f (x # xs) s =
     (case f x s of
        (Some e, s') \<Rightarrow> (Some e, s')
      | (None, s') \<Rightarrow> forEach_throwing f xs s')"

section \<open>Argument\<close>

text \<open>
  The constructor's input object. A string field that is missing or empty is the empty
  string (both are falsy); \<open>data_premises\<close> is \<open>None\<close> when it is not an array;
  \<open>data_respondsTo\<close> and the four lists are \<open>None\<close> when the property is \<open>undefined\<close>.
  \<open>data_confidence\<close> is \<open>None\<close> when the property is \<open>undefined\<close> and a number, which
  may be \<open>NaN\<close>, otherwise.
\<close>

record argumentData =
  argumentId :: string
  data_claim :: string
  data_premises :: "string list option"
  data_conclusion :: string
  argumentType :: string
  data_confidence :: "jsnum option"
  data_respondsTo :: "string option"
  data_supports :: "string list option"
  data_contradicts :: "string list option"
  data_strengths :: "string list option"
  data_weaknesses :: "string list option"

record argument =
  arg_id :: string
  claim :: string
  arg_premises :: "string list"
  conclusion :: string
  arg_type :: string
  confidence :: "jsnum option"
  respondsTo :: "string option"
  supports :: "string list"
  contradicts :: "string list"
  strengths :: "string list"
  weaknesses :: "string list"
  createdAt :: nat
  lastModified :: nat

definition validTypes :: "string list" where
  "validTypes = [''thesis'', ''antithesis'', ''synthesis'', ''objection'', ''rebuttal'']"

definition validateArgument :: "argumentData \<Rightarrow> error option" where
  "validateArgument data =
     (if argumentId data = [] then Some ValidationError
      else if data_claim data = [] then Some ValidationError
      else if data_premises data = None then Some ValidationError
      else if data_conclusion data = [] then Some ValidationError
      else if argumentType data = [] then Some ValidationError
      else if argumentType data \<notin> set validTypes then Some ValidationError
      else (case data_confidence data of
              None \<Rightarrow> None
            | Some c \<Rightarrow> if jlt c (Num 0) \<or> jgt c (Num 1) then Some ValidationError else None))"

text \<open>\<open>x || []\<close> and \<open>x || null\<close>: an empty string is falsy, an empty array is not.\<close>

fun or_empty :: "'a list option \<Rightarrow> 'a list" where
  "or_empty None = []"
| "or_empty (Some xs) = xs"

fun or_null :: "string option \<Rightarrow> string option" where
  "or_null None = None"
| "or_null (Some s) = (if s = [] then None else Some s)"

text \<open>\<open>new Argument(data)\<close>; \<open>now\<close> is the clock read by \<open>new Date()\<close>.\<close>

definition new_Argument :: "nat \<Rightarrow> argumentData \<Rightarrow> error + argument" where
  "new_Argument now data =
     (case validateArgument data of
        Some e \<Rightarrow> Inl e
      | None \<Rightarrow> Inr \<lparr>
          arg_id = argumentId data,
          claim = data_claim data,
          arg_premises = or_empty (data_premises data),
          conclusion = data_conclusion data,
          arg_type = argumentType data,
          confidence = data_confidence data,
          respondsTo = or_null (data_respondsTo data),
          supports = or_empty (data_supports data),
          contradicts = or_empty (data_contradicts data),
          strengths = or_empty (data_strengths data),
          weaknesses = or_empty (data_weaknesses data),
          createdAt = now,
          lastModified = now \<rparr>)"

text \<open>
  A mutating method returns the error thrown, if any, and the object afterwards.
  \<open>newConfidence\<close> is a number, which may be \<open>NaN\<close>, or \<open>undefined\<close> (\<open>None\<close>) when the
  method is called without an argument; the comparisons convert it to a number.
\<close>

definition updateConfidence ::
  "nat \<Rightarrow> jsnum option \<Rightarrow> argument \<Rightarrow> error option \<times> argument" where
  "updateConfidence now newConfidence a =
     (if jlt (toNumber newConfidence) (Num 0) \<or> jgt (toNumber newConfidence) (Num 1)
      then (Some ValidationError, a)
      else (None, a\<lparr>confidence := newConfidence, lastModified := now\<rparr>))"

section \<open>ArgumentGraph\<close>

record relationships =
  rel_supports :: "string list"
  rel_contradicts :: "string list"
  rel_respondsTo :: "string option"

record argumentGraph =
  arguments :: "(string \<times> argument) list"
  adjacencyList :: "(string \<times> relationships) list"

definition new_ArgumentGraph :: argumentGraph where
  "new_ArgumentGraph = \<lparr>arguments = [], adjacencyList = []\<rparr>"

definition both_exist :: "argumentGraph \<Rightarrow> string \<Rightarrow> string \<Rightarrow> bool" where
  "both_exist g a b = (Map_has a (arguments g) \<and> Map_has b (arguments g))"

definition addSupportsRelationship ::
  "string \<Rightarrow> string \<Rightarrow> argumentGraph \<Rightarrow> error option \<times> argumentGraph" where
  "addSupportsRelationship supporterId supportedId g =
     (if \<not> both_exist g supporterId supportedId then (Some UnknownReferenceError, g)
      else (case map_of (adjacencyList g) supporterId of
              None \<Rightarrow> (Some TypeError, g)
            | Some supporter \<Rightarrow>
                (None, g\<lparr>adjacencyList := Map_set supporterId
                   (supporter\<lparr>rel_supports := rel_supports supporter @ [supportedId]\<rparr>)
                   (adjacencyList g)\<rparr>)))"

definition addContradictsRelationship ::
  "string \<Rightarrow> string \<Rightarrow> argumentGraph \<Rightarrow> error option \<times> argumentGraph" where
  "addContradictsRelationship contradictorId contradictedId g =
     (if \<not> both_exist g contradictorId contradictedId then (Some UnknownReferenceError, g)
      else (case map_of (adjacencyList g) contradictorId of
              None \<Rightarrow> (Some TypeError, g)
            | Some contradictor \<Rightarrow>
                (None, g\<lparr>adjacencyList := Map_set contradictorId
                   (contradictor\<lparr>rel_contradicts := rel_contradicts contradictor @ [contradictedId]\<rparr>)
                   (adjacencyList g)\<rparr>)))"

definition addRespondsToRelationship ::
  "string \<Rightarrow> string \<Rightarrow> argumentGraph \<Rightarrow> error option \<times> argumentGraph" where
  "addRespondsToRelationship responderId respondeeId g =
     (if \<not> both_exist g responderId respondeeId then (Some UnknownReferenceError, g)
      else (case map_of (adjacencyList g) responderId of
              None \<Rightarrow> (Some TypeError, g)
            | Some responder \<Rightarrow>
                (None, g\<lparr>adjacencyList := Map_set responderId
                   (responder\<lparr>rel_respondsTo := Some respondeeId\<rparr>)
                   (adjacencyList g)\<rparr>)))"

text \<open>
  The three steps of \<open>addArgument\<close> that establish relationships, each on the graph the
  previous one left.
\<close>

definition establish_supports :: "argument \<Rightarrow> argumentGraph \<Rightarrow> error option \<times> argumentGraph" where
  "establish_supports a g =
     (if length (supports a) > 0
      then forEach_throwing (\<lambda>supportedId. addSupportsRelationship (arg_id a) supportedId)
             (supports a) g
      else (None, g))"

definition establish_contradicts :: "argument \<Rightarrow> argumentGraph \<Rightarrow> error option \<times> argumentGraph" where
  "establish_contradicts a g =
     (if length (contradicts a) > 0
      then forEach_throwing (\<lambda>contradictedId. addContradictsRelationship (arg_id a) contradictedId)
             (contradicts a) g
      else (None, g))"

definition establish_respondsTo :: "argument \<Rightarrow> argumentGraph \<Rightarrow> error option \<times> argumentGraph" where
  "establish_respondsTo a g =
     (case respondsTo a of
        None \<Rightarrow> (None, g)
      | Some r \<Rightarrow> if r = [] then (None, g) else addRespondsToRelationship (arg_id a) r g)"

text \<open>
  \<open>ArgumentGraph.addArgument\<close>: the result is the error thrown or the argument returned,
  with the graph as the call leaves it.
\<close>

definition addArgument ::
  "nat \<Rightarrow> argumentData \<Rightarrow> argumentGraph \<Rightarrow> (error + argument) \<times> argumentGraph" where
  "addArgument now argData g =
     (case new_Argument now argData of
        Inl e \<Rightarrow> (Inl e, g)
      | Inr a \<Rightarrow>
          if Map_has (arg_id a) (arguments g) then (Inl DuplicateIdError, g)
          else
            let g1 = g\<lparr>arguments := Map_set (arg_id a) a (arguments g),
                       adjacencyList := Map_set (arg_id a)
                         \<lparr>rel_supports = [], rel_contradicts = [], rel_respondsTo = None\<rparr>
                         (adjacencyList g)\<rparr>
            in (case establish_supports a g1 of
                  (Some e, g2) \<Rightarrow> (Inl e, g2)
                | (None, g2) \<Rightarrow>
                    (case establish_contradicts a g2 of
                       (Some e, g3) \<Rightarrow> (Inl e, g3)
                     | (None, g3) \<Rightarrow>
                         (case establish_respondsTo a g3 of
                            (Some e, g4) \<Rightarrow> (Inl e, g4)
                          | (None, g4) \<Rightarrow> (Inr a, g4)))))"

definition getArgument :: "argumentGraph \<Rightarrow> string \<Rightarrow> argument option" where
  "getArgument g i = map_of (arguments g) i"

definition getArgumentsByType :: "argumentGraph \<Rightarrow> string \<Rightarrow> argument list" where
  "getArgumentsByType g t = filter (\<lambda>arg. arg_type arg = t) (Map_values (arguments g))"

definition getSupporters :: "argumentGraph \<Rightarrow> string \<Rightarrow> argument list" where
  "getSupporters g argumentId' =
     filter (\<lambda>arg. argumentId' \<in> set (supports arg)) (Map_values (arguments g))"

definition getContradictors :: "argumentGraph \<Rightarrow> string \<Rightarrow> argument list" where
  "getContradictors g argumentId' =
     filter (\<lambda>arg. argumentId' \<in> set (contradicts arg)) (Map_values (arguments g))"

definition getResponders :: "argumentGraph \<Rightarrow> string \<Rightarrow> argument list" where
  "getResponders g argumentId' =
     filter (\<lambda>arg. respondsTo arg = Some argumentId') (Map_values (arguments g))"

definition allConnected :: "relationships \<Rightarrow> string list" where
  "allConnected connections =
     rel_supports connections @ rel_contradicts connections @
     (case rel_respondsTo connections of
        None \<Rightarrow> []
      | Some r \<Rightarrow> if r = [] then [] else [r])"

function findPaths :: "argumentGraph \<Rightarrow> string \<Rightarrow> string \<Rightarrow> string set \<Rightarrow> string list list" where
  "findPaths g startId endId visited =
     (if startId = endId then [[startId]]
      else (case map_of (adjacencyList g) startId of
              None \<Rightarrow> []
            | Some connections \<Rightarrow>
                concat (map (\<lambda>nextId.
                    if nextId \<in> insert startId visited then []
                    else map ((#) startId) (findPaths g nextId endId (insert startId visited)))
                  (allConnected connections))))"
  by pat_completeness auto
termination
proof (relation "measure (\<lambda>(g, startId, endId, visited).
         card (set (map fst (adjacencyList g)) - insert startId visited) +
         (if startId \<in> set (map fst (adjacencyList g)) then 1 else 0))")
  show "wf (measure (\<lambda>(g, startId, endId, visited).
         card (set (map fst (adjacencyList g)) - insert startId visited) +
         (if startId \<in> set (map fst (adjacencyList g)) then 1 else 0)))"
    by simp
next
  fix g :: argumentGraph and startId endId :: string and visited :: "string set"
    and connections :: relationships and nextId :: string
  assume ne: "startId \<noteq> endId"
    and conn: "map_of (adjacencyList g) startId = Some connections"
    and fresh: "nextId \<notin> insert startId visited"
  let ?D = "set (map fst (adjacencyList g))"
  let ?V = "insert startId visited"
  have start_in: "startId \<in> ?D"
    using conn by (metis map_of_eq_None_iff option.distinct(1) set_map)
  have fin: "finite (?D - ?V)" by simp
  have "card (?D - insert nextId ?V) + (if nextId \<in> ?D then 1 else 0) \<le> card (?D - ?V)"
  proof (cases "nextId \<in> ?D")
    case True
    then have mem: "nextId \<in> ?D - ?V" using fresh by simp
    have "?D - insert nextId ?V = (?D - ?V) - {nextId}" by auto
    then have "card (?D - insert nextId ?V) = card (?D - ?V) - 1"
      using mem fin by (simp add: card_Diff_singleton)
    moreover have "card (?D - ?V) > 0" using mem fin by (metis card_gt_0_iff empty_iff)
    ultimately show ?thesis using True by simp
  next
    case False
    then have "?D - insert nextId ?V = ?D - ?V" by auto
    then show ?thesis using False by simp
  qed
  then show "((g, nextId, endId, insert startId visited), (g, startId, endId, visited))
      \<in> measure (\<lambda>(g, startId, endId, visited).
         card (set (map fst (adjacencyList g)) - insert startId visited) +
         (if startId \<in> set (map fst (adjacencyList g)) then 1 else 0))"
    using start_in by simp
qed

declare findPaths.simps [simp del]

section \<open>Text helpers\<close>

text \<open>
  Strings are lists of 8-bit characters: the model covers ASCII text. \<open>\w\<close> is a
  letter, a digit or the underscore.
\<close>

definition toLowerCase_char :: "char \<Rightarrow> char" where
  "toLowerCase_char c =
     (let n = (of_char c :: nat) in if 65 \<le> n \<and> n \<le> 90 then char_of (n + 32) else c)"

definition toLowerCase :: "string \<Rightarrow> string" where
  "toLowerCase s = map toLowerCase_char s"

definition is_word_char :: "char \<Rightarrow> bool" where
  "is_word_char c =
     (let n = (of_char c :: nat) in
        (48 \<le> n \<and> n \<le> 57) \<or> (65 \<le> n \<and> n \<le> 90) \<or> n = 95 \<or> (97 \<le> n \<and> n \<le> 122))"

text \<open>
  \<open>s.split(/\W+/)\<close>: the pieces between the maximal runs of non-word characters; a run
  at either end leaves an empty piece there, and the empty string gives one empty piece.
\<close>

fun split_from :: "bool \<Rightarrow> string \<Rightarrow> string \<Rightarrow> string list" where
  "split_from in_sep cur [] = [rev cur]"
| "split_from in_sep cur (c # cs) =
     (if is_word_char c then split_from False (c # cur) cs
      else if in_sep then split_from True cur cs
      else rev cur # split_from True [] cs)"

definition split_nonword :: "string \<Rightarrow> string list" where
  "split_nonword s = split_from False [] s"

text \<open>\<open>xs.join(sep)\<close>.\<close>

fun join :: "string \<Rightarrow> string list \<Rightarrow> string" where
  "join sep [] = []"
| "join sep [x] = x"
| "join sep (x # y # ys) = x @ sep @ join sep (y # ys)"

text \<open>\<open>hay.includes(needle)\<close> on strings.\<close>

fun starts_with :: "string \<Rightarrow> string \<Rightarrow> bool" where
  "starts_with hay [] = True"
| "starts_with [] (n # ns) = False"
| "starts_with (h # hs) (n # ns) = (h = n \<and> starts_with hs ns)"

fun str_includes :: "string \<Rightarrow> string \<Rightarrow> bool" where
  "str_includes [] needle = (needle = [])"
| "str_includes (h # hs) needle = (starts_with (h # hs) needle \<or> str_includes hs needle)"

text \<open>\<open>[...new Set(xs)]\<close>: the first occurrence of each element, in order.\<close>

definition unique :: "'a list \<Rightarrow> 'a list" where
  "unique xs = rev (remdups (rev xs))"

text \<open>
  The regular expressions of the source are evaluated by the host's \<open>RegExp\<close> engine.
  Their outcomes on a text enter the model as the fields of a record, and every theorem
  below holds for every such record.
  \<^item> \<open>re_adHominem\<close>: \<open>/\bpeople\s+who\s+(believe|think|say)\b/i\<close>
  \<^item> \<open>re_strawMan\<close>: \<open>/\b(nobody|no one|everyone)\s+(thinks|believes|says)\b/i\<close>
  \<^item> \<open>re_falseDichotomy\<close>: \<open>/\b(either|only)\s+.*\bor\b/i\<close>
  \<^item> \<open>re_data\<close>: \<open>/\b\d+(\.\d+)?(%|\s*(percent|percentage|data|study|research|evidence))/i\<close>
  \<^item> \<open>re_citations\<close>: \<open>/\(.*\d{4}.*\)|et\s+al\.|according\s+to/i\<close>
  \<^item> \<open>re_qualifiers\<close>:
    \<open>/\b(might|may|could|possibly|perhaps|likely|probably|generally|tends?\s+to)\b/i\<close>
\<close>

record regexp_engine =
  re_adHominem :: "string \<Rightarrow> bool"
  re_strawMan :: "string \<Rightarrow> bool"
  re_falseDichotomy :: "string \<Rightarrow> bool"
  re_data :: "string \<Rightarrow> bool"
  re_citations :: "string \<Rightarrow> bool"
  re_qualifiers :: "string \<Rightarrow> bool"

section \<open>Evaluator\<close>

record evaluation =
  ev_strengths :: "string list"
  ev_weaknesses :: "string list"
  score :: jsnum
  supportScore :: jsnum
  logicalScore :: jsnum
  evidenceScore :: jsnum

definition stopWords :: "string list" where
  "stopWords = [''the'', ''be'', ''to'', ''of'', ''and'', ''a'', ''in'', ''that'', ''is'', ''was'',
     ''for'', ''it'']"

definition extractKeywords :: "string \<Rightarrow> string list" where
  "extractKeywords text =
     filter (\<lambda>word. length word > 2 \<and> word \<notin> set stopWords)
       (split_nonword (toLowerCase text))"

text \<open>\<open>claim + ' ' + premises.join(' ') + ' ' + conclusion\<close>.\<close>

definition full_text :: "argument \<Rightarrow> string" where
  "full_text a = claim a @ '' '' @ join '' '' (arg_premises a) @ '' '' @ conclusion a"

definition detectFallacies :: "regexp_engine \<Rightarrow> argument \<Rightarrow> string list" where
  "detectFallacies rx a =
     (let text = full_text a in
        (if re_adHominem rx text then [''Possible ad hominem''] else []) @
        (if re_strawMan rx text then [''Possible straw man''] else []) @
        (if re_falseDichotomy rx text then [''Possible false dichotomy''] else []))"

definition checkCoherence :: "argument \<Rightarrow> bool" where
  "checkCoherence a =
     (let claimKeywords = extractKeywords (claim a);
          premiseKeywords = concat (map extractKeywords (arg_premises a));
          conclusionKeywords = extractKeywords (conclusion a);
          overlap = length (filter (\<lambda>kw. kw \<in> set premiseKeywords \<or> kw \<in> set conclusionKeywords)
                      claimKeywords)
      in overlap \<ge> 2)"

definition evaluateLogicalStructure :: "regexp_engine \<Rightarrow> argument \<Rightarrow> jsnum" where
  "evaluateLogicalStructure rx a =
     (let conclusionKeywords = extractKeywords (conclusion a);
          premiseKeywords = concat (map extractKeywords (arg_premises a));
          keywordOverlap = filter (\<lambda>kw. kw \<in> set premiseKeywords) conclusionKeywords;
          score1 = jadd (Num 0)
            (jmul (jdiv (of_length keywordOverlap) (of_length conclusionKeywords)) (Num (4/10)));
          fallacies = detectFallacies rx a;
          score2 = jsub score1 (jmul (of_length fallacies) (Num (1/10)));
          score3 = (if checkCoherence a then jadd score2 (Num (3/10)) else score2);
          score4 = (if length (arg_premises a) \<ge> 2 then jadd score3 (Num (2/10)) else score3)
      in Math_max (Num 0) (Math_min (Num 1) score4))"

definition evidence_step :: "regexp_engine \<Rightarrow> jsnum \<Rightarrow> string \<Rightarrow> jsnum" where
  "evidence_step rx score0 premise =
     (let score1 = (if re_data rx premise then jadd score0 (Num (2/10)) else score0);
          score2 = (if re_citations rx premise then jadd score1 (Num (15/100)) else score1)
      in if re_qualifiers rx premise then jadd score2 (Num (1/10)) else score2)"

definition evaluateEvidence :: "regexp_engine \<Rightarrow> argument \<Rightarrow> jsnum" where
  "evaluateEvidence rx a = Math_min (Num 1) (foldl (evidence_step rx) (Num 0) (arg_premises a))"

definition evaluateSupport :: "argument \<Rightarrow> argumentGraph \<Rightarrow> jsnum" where
  "evaluateSupport a g =
     (let supporters = getSupporters g (arg_id a);
          contradictors = getContradictors g (arg_id a);
          score1 = jadd (Num 0) (Math_min (jmul (of_length supporters) (Num (2/10))) (Num (6/10)));
          score2 = jsub score1 (Math_min (jmul (of_length contradictors) (Num (15/100))) (Num (45/100)));
          avgSupporterConfidence =
            jdiv (foldl (\<lambda>acc curr. jadd acc (toNumber (confidence curr))) (Num 0) supporters)
                 (if length supporters = 0 then Num 1 else of_length supporters);
          score3 = jadd score2 (jmul avgSupporterConfidence (Num (2/10)))
      in Math_max (Num 0) (Math_min (Num 1) score3))"

definition identifyStrengths :: "argument \<Rightarrow> evaluation \<Rightarrow> string list" where
  "identifyStrengths a ev =
     (if jgt (logicalScore ev) (Num (7/10)) then [''Strong logical structure''] else []) @
     (if jgt (evidenceScore ev) (Num (6/10)) then [''Well-supported with evidence''] else []) @
     (if jgt (supportScore ev) (Num (5/10)) then [''Strong support from related arguments''] else []) @
     (if jgt (toNumber (confidence a)) (Num (8/10)) then [''High confidence level''] else []) @
     (if length (arg_premises a) \<ge> 3 then [''Comprehensive premise set''] else [])"

definition identifyWeaknesses :: "argument \<Rightarrow> evaluation \<Rightarrow> string list" where
  "identifyWeaknesses a ev =
     (if jlt (logicalScore ev) (Num (4/10))
      then [''Weak logical connection between premises and conclusion''] else []) @
     (if jlt (evidenceScore ev) (Num (3/10)) then [''Insufficient evidence or data''] else []) @
     (if jlt (supportScore ev) (Num (2/10)) then [''Lack of supporting arguments''] else []) @
     (if jlt (toNumber (confidence a)) (Num (4/10)) then [''Low confidence level''] else []) @
     (if length (arg_premises a) < 2 then [''Insufficient premises''] else []) @
     (if length (arg_premises a) = 1 then [''Overly dependent on single premise''] else [])"

definition calculateOverallScore :: "evaluation \<Rightarrow> jsnum" where
  "calculateOverallScore ev =
     jadd (jadd (jmul (logicalScore ev) (Num (4/10))) (jmul (evidenceScore ev) (Num (3/10))))
          (jmul (supportScore ev) (Num (3/10)))"

definition evaluateArgument :: "regexp_engine \<Rightarrow> argument \<Rightarrow> argumentGraph \<Rightarrow> evaluation" where
  "evaluateArgument rx a g =
     (let ev0 = \<lparr>ev_strengths = [], ev_weaknesses = [], score = Num 0, supportScore = Num 0,
                 logicalScore = Num 0, evidenceScore = Num 0\<rparr>;
          ev1 = ev0\<lparr>logicalScore := evaluateLogicalStructure rx a\<rparr>;
          ev2 = ev1\<lparr>evidenceScore := evaluateEvidence rx a\<rparr>;
          ev3 = ev2\<lparr>supportScore := evaluateSupport a g\<rparr>;
          ev4 = ev3\<lparr>ev_strengths := identifyStrengths a ev3\<rparr>;
          ev5 = ev4\<lparr>ev_weaknesses := identifyWeaknesses a ev4\<rparr>
      in ev5\<lparr>score := calculateOverallScore ev5\<rparr>)"

section \<open>DialecticalEngine\<close>

record historyEntry =
  timestamp :: nat
  action :: string
  entry_argumentId :: string
  entry_argumentType :: string
  entry_context :: "(string \<times> string list) list"

record dialecticalEngine =
  graph :: argumentGraph
  dialecticHistory :: "historyEntry list"

definition new_DialecticalEngine :: dialecticalEngine where
  "new_DialecticalEngine = \<lparr>graph = new_ArgumentGraph, dialecticHistory = []\<rparr>"

text \<open>
  \<open>context[arg.type].push(arg.id)\<close> for each argument of the graph, in insertion order.
  The context object has the keys \<open>thesis\<close>, \<open>antithesis\<close>, \<open>synthesis\<close>, \<open>objections\<close>
  and \<open>rebuttals\<close>; reading any other key gives \<open>undefined\<close>, and \<open>push\<close> on it throws a
  \<open>TypeError\<close>.
\<close>

fun push_ids ::
  "argument list \<Rightarrow> (string \<times> string list) list \<Rightarrow> error + (string \<times> string list) list" where
  "push_ids [] ctx = Inr ctx"
| "push_ids (arg # args) ctx =
     (case map_of ctx (arg_type arg) of
        None \<Rightarrow> Inl TypeError
      | Some ids \<Rightarrow> push_ids args (Map_set (arg_type arg) (ids @ [arg_id arg]) ctx))"

definition getCurrentContext :: "dialecticalEngine \<Rightarrow> error + (string \<times> string list) list" where
  "getCurrentContext e =
     push_ids (Map_values (arguments (graph e)))
       [(''thesis'', []), (''antithesis'', []), (''synthesis'', []), (''objections'', []),
        (''rebuttals'', [])]"

text \<open>
  \<open>DialecticalEngine.addArgument\<close>: \<open>now\<close> is the clock at the construction of the
  argument, \<open>now'\<close> the clock at the history record. The record is built, context
  included, before it is pushed.
\<close>

definition engine_addArgument ::
  "nat \<Rightarrow> nat \<Rightarrow> argumentData \<Rightarrow> dialecticalEngine \<Rightarrow> (error + argument) \<times> dialecticalEngine" where
  "engine_addArgument now now' argData e =
     (case addArgument now argData (graph e) of
        (Inl err, g') \<Rightarrow> (Inl err, e\<lparr>graph := g'\<rparr>)
      | (Inr a, g') \<Rightarrow>
          (case getCurrentContext (e\<lparr>graph := g'\<rparr>) of
             Inl err \<Rightarrow> (Inl err, e\<lparr>graph := g'\<rparr>)
           | Inr ctx \<Rightarrow>
               (Inr a, e\<lparr>graph := g',
                         dialecticHistory := dialecticHistory e @
                           [\<lparr>timestamp = now', action = ''added'', entry_argumentId = arg_id a,
                             entry_argumentType = arg_type a, entry_context = ctx\<rparr>]\<rparr>)))"

definition conceptStopWords :: "string list" where
  "conceptStopWords = [''the'', ''be'', ''to'', ''of'', ''and'', ''a'', ''in'', ''that'', ''is'',
     ''was'', ''for'']"

definition extractConcepts :: "string list \<Rightarrow> string list" where
  "extractConcepts prems =
     (let allWords = split_nonword (toLowerCase (join '' '' prems));
          concepts = filter (\<lambda>word. length word > 3 \<and> word \<notin> set conceptStopWords) allWords
      in unique concepts)"

definition findSharedConcepts :: "string list \<Rightarrow> string list \<Rightarrow> string list" where
  "findSharedConcepts premises1 premises2 =
     (let concepts1 = extractConcepts premises1;
          concepts2 = extractConcepts premises2
      in filter (\<lambda>concept. concept \<in> set concepts2) concepts1)"

text \<open>
  Double arithmetic in the computation of the synthesis potential. An addition,
  subtraction, multiplication or division of two numbers returns the exact result
  rounded to a double, and a decimal literal denotes the double nearest to it. The
  rounding is a parameter \<open>rnd\<close> of the definitions below, and the theorems about them
  hold for every rounding function. Comparisons, \<open>Math.abs\<close> and \<open>Math.min\<close> are
  exact; so are array lengths and their sums and differences, which are small integers.
\<close>

type_synonym rounding = "real \<Rightarrow> real"

fun radd :: "rounding \<Rightarrow> jsnum \<Rightarrow> jsnum \<Rightarrow> jsnum" where
  "radd rnd (Num a) (Num b) = Num (rnd (a + b))"
| "radd rnd _ _ = NaN"

fun rsub :: "rounding \<Rightarrow> jsnum \<Rightarrow> jsnum \<Rightarrow> jsnum" where
  "rsub rnd (Num a) (Num b) = Num (rnd (a - b))"
| "rsub rnd _ _ = NaN"

fun rmul :: "rounding \<Rightarrow> jsnum \<Rightarrow> jsnum \<Rightarrow> jsnum" where
  "rmul rnd (Num a) (Num b) = Num (rnd (a * b))"
| "rmul rnd _ _ = NaN"






record candidate =
  cand_thesis :: string
  cand_antithesis :: string
  potential :: jsnum

text \<open>
  \<open>candidates.sort((a, b) => b.potential - a.potential)\<close>. Only the sign of the
  comparator's value is tested, and the rounded difference of two doubles has the sign
  of their exact difference, so the comparator is modelled with the exact subtraction;
  a value of \<open>NaN\<close> counts as 0.

  \<open>Array.prototype.sort\<close> is stable. When every potential is a number the comparator
  is consistent and the result is the stable sort, computed here by insertion. When a
  potential is \<open>NaN\<close> the comparator need not be consistent and the order is up to the
  implementation: it is \<open>impl\<close>, a parameter of the model.
\<close>

definition compare_potential :: "candidate \<Rightarrow> candidate \<Rightarrow> jsnum" where
  "compare_potential a b = jsub (potential b) (potential a)"

fun insert_candidate :: "candidate \<Rightarrow> candidate list \<Rightarrow> candidate list" where
  "insert_candidate x [] = [x]"
| "insert_candidate x (y # ys) =
     (if jlt (compare_potential y x) (Num 0) then y # insert_candidate x ys else x # y # ys)"






record draft =
  draft_claim :: string
  draft_premises :: "string list"
  draft_conclusion :: string
  draft_type :: string
  draft_supports :: "string list"
  draft_confidence :: jsnum

definition relevant_premises :: "string list \<Rightarrow> string list \<Rightarrow> string list" where
  "relevant_premises sharedConcepts prems =
     filter (\<lambda>p. list_ex (\<lambda>c. str_includes (toLowerCase p) c) sharedConcepts) prems"

definition engine_generateSynthesis :: "dialecticalEngine \<Rightarrow> string \<Rightarrow> string \<Rightarrow> error + draft" where
  "engine_generateSynthesis e thesisId antithesisId =
     (case (getArgument (graph e) thesisId, getArgument (graph e) antithesisId) of
        (Some thesis, Some antithesis) \<Rightarrow>
          (let sharedConcepts = findSharedConcepts (arg_premises thesis) (arg_premises antithesis)
           in Inr \<lparr>
                draft_claim = ''Integration of '' @ [CHR 0x22] @ claim thesis @ [CHR 0x22] @
                  '' and '' @ [CHR 0x22] @ claim antithesis @ [CHR 0x22],
                draft_premises = relevant_premises sharedConcepts (arg_premises thesis) @
                  relevant_premises sharedConcepts (arg_premises antithesis),
                draft_conclusion =
                  ''A balanced approach that incorporates strengths from both perspectives: '' @
                  conclusion thesis @ '' and '' @ conclusion antithesis,
                draft_type = ''synthesis'',
                draft_supports = [thesisId, antithesisId],
                draft_confidence =
                  jadd (Math_min (toNumber (confidence thesis)) (toNumber (confidence antithesis)))
                       (Num (1/10)) \<rparr>)
      | _ \<Rightarrow> Inl UnknownReferenceError)"

section \<open>Synthesizer\<close>

text \<open>
  The class \<open>Synthesizer\<close> declares twenty static methods. These are their names and
  formal parameters, in source order.
\<close>

definition Synthesizer_methods :: "(string \<times> string list) list" where
  "Synthesizer_methods =
     [(''generateSynthesis'', [''arguments'', ''graph'']),
      (''analyzeArguments'', [''arguments'']),
      (''constructSynthesis'', [''arguments'', ''analysis'']),
      (''synthesizeClaim'', [''arguments'', ''analysis'']),
      (''synthesizePremises'', [''arguments'', ''analysis'']),
      (''synthesizeConclusion'', [''arguments'', ''analysis'']),
      (''calculateSynthesisConfidence'', [''arguments'', ''analysis'']),
      (''evaluateSynthesisQuality'', [''synthesis'', ''originalArguments'']),
      (''extractThemes'', [''argument'']),
      (''findComplementaryPremises'', [''arg1'', ''arg2'']),
      (''areComplementary'', [''premise1'', ''premise2'']),
      (''areClaimsConflicting'', [''claim1'', ''claim2'']),
      (''isReconcilable'', [''arg1'', ''arg2'']),
      (''hasQualifiers'', [''argument'']),
      (''findSharedValues'', [''arg1'', ''arg2'']),
      (''findSharedPremises'', [''arguments'']),
      (''extractKeywords'', [''text'']),
      (''calculateConceptCoverage'', [''synthesis'', ''originalArguments'']),
      (''evaluateCoherence'', [''synthesis'']),
      (''evaluateAdvancement'', [''synthesis'', ''originalArguments''])]"

text \<open>
  A class body is strict mode code. In strict mode code a formal parameter named
  \<open>arguments\<close> or \<open>eval\<close>, or two formal parameters of one method with the same name,
  are an early error: the runtime throws a \<open>SyntaxError\<close> for the source text before it
  evaluates any of it.
\<close>

definition strict_parameters_ok :: "string list \<Rightarrow> bool" where
  "strict_parameters_ok ps =
     (distinct ps \<and> list_all (\<lambda>p. p \<noteq> ''arguments'' \<and> p \<noteq> ''eval'') ps)"

definition class_early_error :: "(string \<times> string list) list \<Rightarrow> error option" where
  "class_early_error methods =
     (if list_all (\<lambda>m. strict_parameters_ok (snd m)) methods then None else Some SyntaxError)"

text \<open>Loading the module that holds the class: the error thrown, if any.\<close>

definition require_Synthesizer :: "error option" where
  "require_Synthesizer = class_early_error Synthesizer_methods"

text \<open>
  \<open>Synthesizer.generateSynthesis(arguments, graph)\<close>. The class has to be loaded before
  the method can be called. The statements of the method are a parameter \<open>body\<close> of the
  model: \<open>body args g\<close> is what they would return.
\<close>

definition Synthesizer_generateSynthesis ::
  "(argument list \<Rightarrow> argumentGraph \<Rightarrow> error + 'r) \<Rightarrow> argument list \<Rightarrow> argumentGraph \<Rightarrow> error + 'r" where
  "Synthesizer_generateSynthesis body args g =
     (case require_Synthesizer of Some e \<Rightarrow> Inl e | None \<Rightarrow> body args g)"

section \<open>What addArgument registers\<close>

text \<open>
  The ids an argument refers to, in the order \<open>addArgument\<close> processes them. An empty
  \<open>respondsTo\<close> is falsy and is skipped.
\<close>

definition responds_ref :: "argument \<Rightarrow> string list" where
  "responds_ref a = (case respondsTo a of None \<Rightarrow> [] | Some r \<Rightarrow> if r = [] then [] else [r])"

definition references :: "argument \<Rightarrow> string list" where
  "references a = supports a @ contradicts a @ responds_ref a"

text \<open>
  An id is known when \<open>addArgument\<close> checks it if it was in the graph before the call or
  is the id of the argument being added, which is stored before its relationships are
  established.
\<close>

definition known :: "argumentGraph \<Rightarrow> argument \<Rightarrow> string \<Rightarrow> bool" where
  "known g a r = (r = arg_id a \<or> Map_has r (arguments g))"

text \<open>
  The relationship record that \<open>addArgument\<close> leaves for the new argument: the edges
  registered up to the first reference that is not known.
\<close>

definition registered_edges :: "argumentGraph \<Rightarrow> argument \<Rightarrow> relationships" where
  "registered_edges g a = \<lparr>
     rel_supports = takeWhile (known g a) (supports a),
     rel_contradicts =
       (if list_all (known g a) (supports a) then takeWhile (known g a) (contradicts a) else []),
     rel_respondsTo =
       (if list_all (known g a) (references a) \<and> responds_ref a \<noteq> [] then respondsTo a
        else None) \<rparr>"

text \<open>The keys of the context object that \<open>getCurrentContext\<close> builds.\<close>

definition context_keys :: "string list" where
  "context_keys = [''thesis'', ''antithesis'', ''synthesis'', ''objections'', ''rebuttals'']"

section \<open>Example inputs\<close>

text \<open>
  Concrete inputs on which the theorems below are evaluated: an input object with fixed
  claim, premises and conclusion, whose confidence is the given number or is omitted,
  and a graph built by successive insertions.
\<close>

definition example_data ::
  "string \<Rightarrow> string \<Rightarrow> real option \<Rightarrow> string list \<Rightarrow> string list \<Rightarrow> string option \<Rightarrow> argumentData" where
  "example_data i t c sups cons resp = \<lparr>
     argumentId = i, data_claim = ''claim'', data_premises = Some [],
     data_conclusion = ''conclusion'', argumentType = t, data_confidence = map_option Num c,
     data_respondsTo = resp, data_supports = Some sups, data_contradicts = Some cons,
     data_strengths = None, data_weaknesses = None \<rparr>"

definition example_argument ::
  "string \<Rightarrow> string \<Rightarrow> real option \<Rightarrow> string list \<Rightarrow> string list \<Rightarrow> string option \<Rightarrow> argument" where
  "example_argument i t c sups cons resp = \<lparr>
     arg_id = i, claim = ''claim'', arg_premises = [], conclusion = ''conclusion'',
     arg_type = t, confidence = map_option Num c, respondsTo = resp, supports = sups,
     contradicts = cons,
     strengths = [], weaknesses = [], createdAt = 0, lastModified = 0 \<rparr>"

definition empty_rel :: relationships where
  "empty_rel = \<lparr>rel_supports = [], rel_contradicts = [], rel_respondsTo = None\<rparr>"

definition graph_a :: argumentGraph where
  "graph_a = \<lparr>
     arguments = [(''a'', example_argument ''a'' ''thesis'' (Some (1/2)) [] [] None)],
     adjacencyList = [(''a'', empty_rel)] \<rparr>"

text \<open>The graph after inserting a thesis \<open>a\<close> and an antithesis \<open>b\<close> that declare no relationships.\<close>

definition graph_ab :: argumentGraph where
  "graph_ab =
     snd (addArgument 0 (example_data ''b'' ''antithesis'' (Some (1/2)) [] [] None)
       (snd (addArgument 0 (example_data ''a'' ''thesis'' (Some (1/2)) [] [] None)
          new_ArgumentGraph)))"

text \<open>An argument whose conclusion has no keyword: each of its words is short or a stop word.\<close>

definition no_keyword_argument :: argument where
  "no_keyword_argument =
     (example_argument ''a'' ''thesis'' (Some (1/2)) [] [] None)\<lparr>conclusion := ''so be it''\<rparr>"

text \<open>
  An engine that holds a thesis \<open>t\<close> and an antithesis \<open>a\<close> responding to it, with the
  given confidences.
\<close>

definition engine_with :: "real option \<Rightarrow> real option \<Rightarrow> dialecticalEngine" where
  "engine_with x y = \<lparr>
     graph = \<lparr>
       arguments =
         [(''t'', example_argument ''t'' ''thesis'' x [] [] None),
          (''a'', example_argument ''a'' ''antithesis'' y [] [] (Some ''t''))],
       adjacencyList =
         [(''t'', empty_rel),
          (''a'', \<lparr>rel_supports = [], rel_contradicts = [], rel_respondsTo = Some ''t''\<rparr>)]\<rparr>,
     dialecticHistory = [] \<rparr>"




section \<open>The potential formula in the specification's words\<close>



section \<open>Properties of Argument\<close>

lemma validateArgument_confidence:
  "validateArgument data = None \<Longrightarrow> data_confidence data = Some (Num c) \<Longrightarrow> 0 \<le> c \<and> c \<le> 1"
  by (auto simp: validateArgument_def split: if_splits)

lemma validateArgument_errors:
  "validateArgument data = Some e \<Longrightarrow> e = ValidationError"
  by (auto simp: validateArgument_def split: if_splits option.splits)

lemma validateArgument_out_of_range:
  "data_confidence data = Some (Num c) \<Longrightarrow> c < 0 \<or> c > 1 \<Longrightarrow>
   validateArgument data = Some ValidationError"
  by (auto simp: validateArgument_def)

section \<open>Properties of findPaths\<close>

text \<open>
  C10. For every id \<open>x\<close>, every graph (whether or not it holds \<open>x\<close>) and every visited
  set, \<open>findPaths(x, x)\<close> returns exactly the list holding the one-node path \<open>[x]\<close>: the
  identity test comes before the adjacency lookup.
\<close>

theorem findPaths_identity: "findPaths g x x visited = [[x]]"
  by (simp add: findPaths.simps)

lemma new_Argument_example:
  "t \<in> set validTypes \<Longrightarrow> i \<noteq> [] \<Longrightarrow> (case c of None \<Rightarrow> True | Some x \<Rightarrow> 0 \<le> x \<and> x \<le> 1) \<Longrightarrow>
   new_Argument 0 (example_data i t c sups cons resp) = Inr (example_argument i t c sups cons (or_null resp))"
  by (auto simp: new_Argument_def validateArgument_def example_data_def example_argument_def
      validTypes_def split: option.splits)

section \<open>Properties of the insertion-ordered map\<close>

lemma set_fst_Map_set [simp]: "set (map fst (Map_set k v m)) = insert k (set (map fst m))"
  by (induction k v m rule: Map_set.induct) auto

lemma map_of_Map_set [simp]: "map_of (Map_set k v m) = (map_of m)(k \<mapsto> v)"
  by (induction k v m rule: Map_set.induct) auto

lemma Map_set_twice [simp]: "Map_set k v (Map_set k v' m) = Map_set k v m"
  by (induction k v' m rule: Map_set.induct) auto

lemma Map_has_Map_set [simp]: "Map_has x (Map_set k v m) = (x = k \<or> Map_has x m)"
  using set_fst_Map_set [of k v m] by (simp only: Map_has_def) auto

lemma Map_set_same: "map_of m k = Some v \<Longrightarrow> Map_set k v m = m"
  by (induction k v m rule: Map_set.induct) (auto split: if_splits)

lemma Map_set_fresh: "\<not> Map_has k m \<Longrightarrow> Map_set k v m = m @ [(k, v)]"
  by (induction k v m rule: Map_set.induct) (auto simp: Map_has_def)

section \<open>Properties of addArgument\<close>

lemma supports_loop:
  "Map_has i (arguments g) \<Longrightarrow> map_of (adjacencyList g) i = Some r \<Longrightarrow>
   forEach_throwing (\<lambda>x. addSupportsRelationship i x) xs g =
     (if list_all (\<lambda>x. Map_has x (arguments g)) xs then None else Some UnknownReferenceError,
      g\<lparr>adjacencyList := Map_set i
          (r\<lparr>rel_supports := rel_supports r @ takeWhile (\<lambda>x. Map_has x (arguments g)) xs\<rparr>)
          (adjacencyList g)\<rparr>)"
proof (induction xs arbitrary: g r)
  case Nil
  then show ?case by (simp add: Map_set_same)
next
  case (Cons x xs)
  show ?case
  proof (cases "Map_has x (arguments g)")
    case False
    then show ?thesis
      using Cons.prems by (simp add: addSupportsRelationship_def both_exist_def Map_set_same)
  next
    case True
    let ?r = "r\<lparr>rel_supports := rel_supports r @ [x]\<rparr>"
    let ?g = "g\<lparr>adjacencyList := Map_set i ?r (adjacencyList g)\<rparr>"
    have step: "addSupportsRelationship i x g = (None, ?g)"
      using True Cons.prems by (simp add: addSupportsRelationship_def both_exist_def)
    have "Map_has i (arguments ?g)" and "map_of (adjacencyList ?g) i = Some ?r"
      using Cons.prems by simp_all
    from Cons.IH [OF this] show ?thesis
      using True step by simp
  qed
qed

lemma contradicts_loop:
  "Map_has i (arguments g) \<Longrightarrow> map_of (adjacencyList g) i = Some r \<Longrightarrow>
   forEach_throwing (\<lambda>x. addContradictsRelationship i x) xs g =
     (if list_all (\<lambda>x. Map_has x (arguments g)) xs then None else Some UnknownReferenceError,
      g\<lparr>adjacencyList := Map_set i
          (r\<lparr>rel_contradicts := rel_contradicts r @ takeWhile (\<lambda>x. Map_has x (arguments g)) xs\<rparr>)
          (adjacencyList g)\<rparr>)"
proof (induction xs arbitrary: g r)
  case Nil
  then show ?case by (simp add: Map_set_same)
next
  case (Cons x xs)
  show ?case
  proof (cases "Map_has x (arguments g)")
    case False
    then show ?thesis
      using Cons.prems by (simp add: addContradictsRelationship_def both_exist_def Map_set_same)
  next
    case True
    let ?r = "r\<lparr>rel_contradicts := rel_contradicts r @ [x]\<rparr>"
    let ?g = "g\<lparr>adjacencyList := Map_set i ?r (adjacencyList g)\<rparr>"
    have step: "addContradictsRelationship i x g = (None, ?g)"
      using True Cons.prems by (simp add: addContradictsRelationship_def both_exist_def)
    have "Map_has i (arguments ?g)" and "map_of (adjacencyList ?g) i = Some ?r"
      using Cons.prems by simp_all
    from Cons.IH [OF this] show ?thesis
      using True step by simp
  qed
qed

lemma establish_supports_eq:
  "Map_has (arg_id a) (arguments g) \<Longrightarrow> map_of (adjacencyList g) (arg_id a) = Some r \<Longrightarrow>
   establish_supports a g =
     (if list_all (\<lambda>x. Map_has x (arguments g)) (supports a) then None
      else Some UnknownReferenceError,
      g\<lparr>adjacencyList := Map_set (arg_id a)
          (r\<lparr>rel_supports := rel_supports r @ takeWhile (\<lambda>x. Map_has x (arguments g)) (supports a)\<rparr>)
          (adjacencyList g)\<rparr>)"
  using supports_loop [of "arg_id a" g r "supports a"]
  by (cases "supports a = []") (simp_all add: establish_supports_def Map_set_same)

lemma establish_contradicts_eq:
  "Map_has (arg_id a) (arguments g) \<Longrightarrow> map_of (adjacencyList g) (arg_id a) = Some r \<Longrightarrow>
   establish_contradicts a g =
     (if list_all (\<lambda>x. Map_has x (arguments g)) (contradicts a) then None
      else Some UnknownReferenceError,
      g\<lparr>adjacencyList := Map_set (arg_id a)
          (r\<lparr>rel_contradicts := rel_contradicts r @ takeWhile (\<lambda>x. Map_has x (arguments g)) (contradicts a)\<rparr>)
          (adjacencyList g)\<rparr>)"
  using contradicts_loop [of "arg_id a" g r "contradicts a"]
  by (cases "contradicts a = []") (simp_all add: establish_contradicts_def Map_set_same)

lemma establish_respondsTo_eq:
  "Map_has (arg_id a) (arguments g) \<Longrightarrow> map_of (adjacencyList g) (arg_id a) = Some r \<Longrightarrow>
   establish_respondsTo a g =
     (if list_all (\<lambda>x. Map_has x (arguments g)) (responds_ref a) then None
      else Some UnknownReferenceError,
      g\<lparr>adjacencyList := Map_set (arg_id a)
          (r\<lparr>rel_respondsTo :=
               if list_all (\<lambda>x. Map_has x (arguments g)) (responds_ref a) \<and> responds_ref a \<noteq> []
               then respondsTo a else rel_respondsTo r\<rparr>)
          (adjacencyList g)\<rparr>)"
  by (auto simp: establish_respondsTo_def responds_ref_def addRespondsToRelationship_def
      both_exist_def Map_set_same split: option.splits)

text \<open>
  What \<open>addArgument\<close> does with a valid input whose id is new: the argument and its
  relationship record are stored first, then the references are checked one by one.
\<close>

lemma addArgument_fresh:
  assumes valid: "new_Argument now argData = Inr a"
    and fresh: "\<not> Map_has (arg_id a) (arguments g)"
  shows "addArgument now argData g =
     (if list_all (known g a) (references a) then Inr a else Inl UnknownReferenceError,
      g\<lparr>arguments := Map_set (arg_id a) a (arguments g),
        adjacencyList := Map_set (arg_id a) (registered_edges g a) (adjacencyList g)\<rparr>)"
proof -
  let ?P = "known g a"
  let ?i = "arg_id a"
  let ?r0 = "\<lparr>rel_supports = [], rel_contradicts = [], rel_respondsTo = None\<rparr>"
  let ?g1 = "g\<lparr>arguments := Map_set ?i a (arguments g),
               adjacencyList := Map_set ?i ?r0 (adjacencyList g)\<rparr>"
  let ?r1 = "?r0\<lparr>rel_supports := takeWhile ?P (supports a)\<rparr>"
  let ?g2 = "?g1\<lparr>adjacencyList := Map_set ?i ?r1 (adjacencyList g)\<rparr>"
  let ?r2 = "?r1\<lparr>rel_contradicts := takeWhile ?P (contradicts a)\<rparr>"
  let ?g3 = "?g1\<lparr>adjacencyList := Map_set ?i ?r2 (adjacencyList g)\<rparr>"
  let ?r3 = "?r2\<lparr>rel_respondsTo :=
               if list_all ?P (responds_ref a) \<and> responds_ref a \<noteq> [] then respondsTo a
               else None\<rparr>"
  let ?g4 = "?g1\<lparr>adjacencyList := Map_set ?i ?r3 (adjacencyList g)\<rparr>"
  have P: "(\<lambda>x. x = arg_id a \<or> Map_has x (arguments g)) = ?P"
    by (simp add: known_def fun_eq_iff)
  have s: "establish_supports a ?g1 =
      (if list_all ?P (supports a) then None else Some UnknownReferenceError, ?g2)"
    using establish_supports_eq [of a ?g1 ?r0] by (simp add: P)
  have c: "establish_contradicts a ?g2 =
      (if list_all ?P (contradicts a) then None else Some UnknownReferenceError, ?g3)"
    using establish_contradicts_eq [of a ?g2 ?r1] by (simp add: P)
  have r: "establish_respondsTo a ?g3 =
      (if list_all ?P (responds_ref a) then None else Some UnknownReferenceError, ?g4)"
    using establish_respondsTo_eq [of a ?g3 ?r2] by (simp add: P)
  have tw: "\<And>xs. list_all ?P xs \<Longrightarrow> takeWhile ?P xs = xs"
    by (simp add: list_all_iff)
  show ?thesis
  proof (cases "list_all ?P (supports a)")
    case False
    then show ?thesis
      using valid fresh s
      by (simp add: addArgument_def Let_def registered_edges_def references_def)
  next
    case S: True
    note s' = s [unfolded tw [OF S]]
    note c' = c [unfolded tw [OF S]]
    show ?thesis
    proof (cases "list_all ?P (contradicts a)")
      case False
      then show ?thesis
        using valid fresh S s' c'
        by (simp add: addArgument_def Let_def registered_edges_def references_def tw [OF S])
    next
      case C: True
      note c'' = c' [unfolded tw [OF C]]
      note r' = r [unfolded tw [OF S] tw [OF C]]
      show ?thesis
        using valid fresh S C s' c'' r'
        by (simp add: addArgument_def Let_def registered_edges_def references_def
            tw [OF S] tw [OF C])
    qed
  qed
qed

lemma addArgument_invalid:
  "new_Argument now argData = Inl e \<Longrightarrow> addArgument now argData g = (Inl ValidationError, g)"
  by (auto simp: addArgument_def new_Argument_def split: option.splits
      dest: validateArgument_errors)

lemma addArgument_duplicate:
  "new_Argument now argData = Inr a \<Longrightarrow> Map_has (arg_id a) (arguments g) \<Longrightarrow>
   addArgument now argData g = (Inl DuplicateIdError, g)"
  by (simp add: addArgument_def)

text \<open>
  C1, as the code has it. For valid argument data with an id that is not yet in the
  graph, whose supports, contradicts or respondsTo names an id that is neither in the
  graph nor the new id itself, \<open>addArgument\<close> fails with \<open>UnknownReferenceError\<close>, but
  not atomically: the new argument stays in the id-to-Argument map, appended after the
  entries that were there, and it has a relationship record, which holds the edges
  registered before the first unknown reference.
\<close>

theorem addArgument_unknown_reference_leaves_argument:
  assumes "new_Argument now argData = Inr a"
    and "\<not> Map_has (arg_id a) (arguments g)"
    and "\<not> list_all (known g a) (references a)"
  shows "addArgument now argData g =
     (Inl UnknownReferenceError,
      g\<lparr>arguments := arguments g @ [(arg_id a, a)],
        adjacencyList := Map_set (arg_id a) (registered_edges g a) (adjacencyList g)\<rparr>)"
  using assms by (simp add: addArgument_fresh Map_set_fresh)

theorem addArgument_unknown_reference_leaves_argument_witness:
  "addArgument 0 (example_data ''b'' ''antithesis'' (Some (1/2)) [''a'', ''x''] [''a''] None) graph_a =
     (Inl UnknownReferenceError,
      \<lparr>arguments =
         [(''a'', example_argument ''a'' ''thesis'' (Some (1/2)) [] [] None),
          (''b'', example_argument ''b'' ''antithesis'' (Some (1/2)) [''a'', ''x''] [''a''] None)],
       adjacencyList =
         [(''a'', empty_rel),
          (''b'', \<lparr>rel_supports = [''a''], rel_contradicts = [], rel_respondsTo = None\<rparr>)]\<rparr>)"
proof -
  let ?d = "example_data ''b'' ''antithesis'' (Some (1/2)) [''a'', ''x''] [''a''] None"
  let ?a = "example_argument ''b'' ''antithesis'' (Some (1/2)) [''a'', ''x''] [''a''] None"
  have valid: "new_Argument 0 ?d = Inr ?a"
    using new_Argument_example [of "''antithesis''" "''b''" "Some (1/2)" "[''a'', ''x'']" "[''a'']" None]
    by (simp add: validTypes_def)
  have fresh: "\<not> Map_has (arg_id ?a) (arguments graph_a)"
    by (simp add: Map_has_def graph_a_def example_argument_def)
  have unknown: "\<not> list_all (known graph_a ?a) (references ?a)"
    by (simp add: known_def references_def Map_has_def graph_a_def example_argument_def)
  have edges: "registered_edges graph_a ?a =
      \<lparr>rel_supports = [''a''], rel_contradicts = [], rel_respondsTo = None\<rparr>"
    by (simp add: registered_edges_def known_def references_def responds_ref_def Map_has_def
        graph_a_def example_argument_def)
  show ?thesis
    using addArgument_unknown_reference_leaves_argument [OF valid fresh unknown]
    by (simp add: edges) (simp add: graph_a_def example_argument_def)
qed

theorem addArgument_atomic_counterexample:
  "fst (addArgument 0 (example_data ''b'' ''antithesis'' (Some (1/2)) [''a'', ''x''] [] None) graph_a)
     = Inl UnknownReferenceError \<and>
   snd (addArgument 0 (example_data ''b'' ''antithesis'' (Some (1/2)) [''a'', ''x''] [] None) graph_a)
     \<noteq> graph_a \<and>
   getArgument
     (snd (addArgument 0 (example_data ''b'' ''antithesis'' (Some (1/2)) [''a'', ''x''] [] None) graph_a))
     ''b'' = Some (example_argument ''b'' ''antithesis'' (Some (1/2)) [''a'', ''x''] [] None) \<and>
   map_of (adjacencyList
     (snd (addArgument 0 (example_data ''b'' ''antithesis'' (Some (1/2)) [''a'', ''x''] [] None) graph_a)))
     ''b'' = Some \<lparr>rel_supports = [''a''], rel_contradicts = [], rel_respondsTo = None\<rparr>"
proof -
  let ?d = "example_data ''b'' ''antithesis'' (Some (1/2)) [''a'', ''x''] [] None"
  let ?a = "example_argument ''b'' ''antithesis'' (Some (1/2)) [''a'', ''x''] [] None"
  have valid: "new_Argument 0 ?d = Inr ?a"
    using new_Argument_example [of "''antithesis''" "''b''" "Some (1/2)" "[''a'', ''x'']" "[]" None]
    by (simp add: validTypes_def)
  have fresh: "\<not> Map_has (arg_id ?a) (arguments graph_a)"
    by (simp add: Map_has_def graph_a_def example_argument_def)
  have unknown: "\<not> list_all (known graph_a ?a) (references ?a)"
    by (simp add: known_def references_def Map_has_def graph_a_def example_argument_def)
  have edges: "registered_edges graph_a ?a =
      \<lparr>rel_supports = [''a''], rel_contradicts = [], rel_respondsTo = None\<rparr>"
    by (simp add: registered_edges_def known_def references_def responds_ref_def Map_has_def
        graph_a_def example_argument_def)
  have "addArgument 0 ?d graph_a =
     (Inl UnknownReferenceError,
      graph_a\<lparr>arguments := Map_set ''b'' ?a (arguments graph_a),
        adjacencyList := Map_set ''b''
          \<lparr>rel_supports = [''a''], rel_contradicts = [], rel_respondsTo = None\<rparr>
          (adjacencyList graph_a)\<rparr>)"
    using addArgument_fresh [OF valid fresh] unknown edges
    by (simp add: example_argument_def)
  then show ?thesis
    by (simp add: getArgument_def) (simp add: graph_a_def)
qed

text \<open>
  C2, as the code has it. For every graph state and every valid argument data with an id
  that is not yet in the graph, \<open>addArgument\<close> fails with \<open>UnknownReferenceError\<close>
  exactly when supports, contradicts or respondsTo names an id that is neither in the
  graph before the call nor the argument's own new id: a forward reference fails, a
  reference of the argument to itself is accepted. If every referenced argument was
  inserted before, inserting the referencing argument succeeds.
\<close>

theorem addArgument_reference_check:
  assumes "new_Argument now argData = Inr a"
    and "\<not> Map_has (arg_id a) (arguments g)"
  shows "(fst (addArgument now argData g) = Inl UnknownReferenceError) =
           (\<not> list_all (known g a) (references a)) \<and>
         (list_all (\<lambda>r. Map_has r (arguments g)) (references a) \<longrightarrow>
            fst (addArgument now argData g) = Inr a)"
proof -
  have "list_all (\<lambda>r. Map_has r (arguments g)) (references a) \<Longrightarrow>
        list_all (known g a) (references a)"
    by (simp add: list_all_iff known_def)
  then show ?thesis
    using assms by (auto simp: addArgument_fresh)
qed

theorem addArgument_reference_check_witness:
  "fst (addArgument 0 (example_data ''b'' ''antithesis'' (Some (1/2)) [] [''a''] (Some ''a'')) graph_a)
     = Inr (example_argument ''b'' ''antithesis'' (Some (1/2)) [] [''a''] (Some ''a'')) \<and>
   fst (addArgument 0 (example_data ''b'' ''antithesis'' (Some (1/2)) [] [''a''] (Some ''c'')) graph_a)
     = Inl UnknownReferenceError"
proof -
  let ?d = "example_data ''b'' ''antithesis'' (Some (1/2)) [] [''a''] (Some ''a'')"
  let ?a = "example_argument ''b'' ''antithesis'' (Some (1/2)) [] [''a''] (Some ''a'')"
  let ?d' = "example_data ''b'' ''antithesis'' (Some (1/2)) [] [''a''] (Some ''c'')"
  let ?a' = "example_argument ''b'' ''antithesis'' (Some (1/2)) [] [''a''] (Some ''c'')"
  have valid: "new_Argument 0 ?d = Inr ?a"
    using new_Argument_example [of "''antithesis''" "''b''" "Some (1/2)" "[]" "[''a'']" "Some ''a''"]
    by (simp add: validTypes_def)
  have fresh: "\<not> Map_has (arg_id ?a) (arguments graph_a)"
    by (simp add: Map_has_def graph_a_def example_argument_def)
  have present: "list_all (\<lambda>r. Map_has r (arguments graph_a)) (references ?a)"
    by (simp add: references_def responds_ref_def Map_has_def graph_a_def example_argument_def)
  have valid': "new_Argument 0 ?d' = Inr ?a'"
    using new_Argument_example [of "''antithesis''" "''b''" "Some (1/2)" "[]" "[''a'']" "Some ''c''"]
    by (simp add: validTypes_def)
  have fresh': "\<not> Map_has (arg_id ?a') (arguments graph_a)"
    by (simp add: Map_has_def graph_a_def example_argument_def)
  have unknown': "\<not> list_all (known graph_a ?a') (references ?a')"
    by (simp add: known_def references_def responds_ref_def Map_has_def graph_a_def
        example_argument_def)
  show ?thesis
    using addArgument_reference_check [OF valid fresh] present
      addArgument_reference_check [OF valid' fresh'] unknown'
    by simp
qed

theorem addArgument_self_reference_counterexample:
  "\<not> Map_has ''a'' (arguments new_ArgumentGraph) \<and>
   fst (addArgument 0 (example_data ''a'' ''thesis'' (Some (1/2)) [''a''] [] None) new_ArgumentGraph)
     = Inr (example_argument ''a'' ''thesis'' (Some (1/2)) [''a''] [] None)"
proof -
  let ?d = "example_data ''a'' ''thesis'' (Some (1/2)) [''a''] [] None"
  let ?a = "example_argument ''a'' ''thesis'' (Some (1/2)) [''a''] [] None"
  have valid: "new_Argument 0 ?d = Inr ?a"
    using new_Argument_example [of "''thesis''" "''a''" "Some (1/2)" "[''a'']" "[]" None]
    by (simp add: validTypes_def)
  have fresh: "\<not> Map_has (arg_id ?a) (arguments new_ArgumentGraph)"
    by (simp add: Map_has_def new_ArgumentGraph_def)
  have "list_all (known new_ArgumentGraph ?a) (references ?a)"
    by (simp add: known_def references_def responds_ref_def example_argument_def)
  then show ?thesis
    using addArgument_fresh [OF valid fresh] fresh by (simp add: example_argument_def)
qed

text \<open>
  C5, as the code has it. For every valid construction input that supplies a number as
  confidence and every successful \<open>updateConfidence\<close> call that is given a number, the
  stored confidence is that number and lies between 0 and 1 afterwards; every
  construction or update that supplies a number outside that range fails with
  \<open>ValidationError\<close>, and the update leaves the argument unchanged. (A number here is
  not \<open>NaN\<close>.)
\<close>

theorem confidence_range:
  "(new_Argument now data = Inr a \<and> data_confidence data = Some (Num c) \<longrightarrow>
      confidence a = Some (Num c) \<and> in_unit_interval (toNumber (confidence a))) \<and>
   (updateConfidence now' (Some (Num c')) a0 = (None, a1) \<longrightarrow>
      a1 = a0\<lparr>confidence := Some (Num c'), lastModified := now'\<rparr> \<and>
      in_unit_interval (toNumber (confidence a1))) \<and>
   (data_confidence data = Some (Num c) \<and> (c < 0 \<or> c > 1) \<longrightarrow>
      new_Argument now data = Inl ValidationError) \<and>
   (c' < 0 \<or> c' > 1 \<longrightarrow>
      updateConfidence now' (Some (Num c')) a0 = (Some ValidationError, a0))"
proof -
  have "new_Argument now data = Inr a \<Longrightarrow> data_confidence data = Some (Num c) \<Longrightarrow>
      confidence a = Some (Num c) \<and> 0 \<le> c \<and> c \<le> 1"
    using validateArgument_confidence [of data c]
    by (auto simp: new_Argument_def split: option.splits)
  moreover have "updateConfidence now' (Some (Num c')) a0 = (None, a1) \<Longrightarrow>
      a1 = a0\<lparr>confidence := Some (Num c'), lastModified := now'\<rparr> \<and> 0 \<le> c' \<and> c' \<le> 1"
    by (auto simp: updateConfidence_def split: if_splits)
  moreover have "data_confidence data = Some (Num c) \<Longrightarrow> c < 0 \<or> c > 1 \<Longrightarrow>
      new_Argument now data = Inl ValidationError"
    using validateArgument_out_of_range [of data c] by (simp add: new_Argument_def)
  moreover have "c' < 0 \<or> c' > 1 \<Longrightarrow>
      updateConfidence now' (Some (Num c')) a0 = (Some ValidationError, a0)"
    by (auto simp: updateConfidence_def)
  ultimately show ?thesis by auto
qed

theorem confidence_range_witness:
  "new_Argument 0 (example_data ''a'' ''thesis'' (Some (4/5)) [] [] None)
     = Inr (example_argument ''a'' ''thesis'' (Some (4/5)) [] [] None) \<and>
   confidence (example_argument ''a'' ''thesis'' (Some (4/5)) [] [] None) = Some (Num (4/5)) \<and>
   in_unit_interval (toNumber (confidence (example_argument ''a'' ''thesis'' (Some (4/5)) [] [] None))) \<and>
   updateConfidence 7 (Some (Num (1/4))) (example_argument ''a'' ''thesis'' (Some (4/5)) [] [] None)
     = (None, (example_argument ''a'' ''thesis'' (Some (4/5)) [] [] None)
                \<lparr>confidence := Some (Num (1/4)), lastModified := 7\<rparr>) \<and>
   in_unit_interval (toNumber (confidence
     (snd (updateConfidence 7 (Some (Num (1/4)))
        (example_argument ''a'' ''thesis'' (Some (4/5)) [] [] None))))) \<and>
   new_Argument 0 (example_data ''a'' ''thesis'' (Some (3/2)) [] [] None) = Inl ValidationError \<and>
   updateConfidence 7 (Some (Num (-1))) (example_argument ''a'' ''thesis'' (Some (4/5)) [] [] None)
     = (Some ValidationError, example_argument ''a'' ''thesis'' (Some (4/5)) [] [] None)"
proof -
  let ?d = "example_data ''a'' ''thesis'' (Some (4/5)) [] [] None"
  let ?a = "example_argument ''a'' ''thesis'' (Some (4/5)) [] [] None"
  let ?a' = "?a\<lparr>confidence := Some (Num (1/4)), lastModified := 7\<rparr>"
  let ?bad = "example_data ''a'' ''thesis'' (Some (3/2)) [] [] None"
  have valid: "new_Argument 0 ?d = Inr ?a"
    using new_Argument_example [of "''thesis''" "''a''" "Some (4/5)" "[]" "[]" None]
    by (simp add: validTypes_def)
  have supplied: "data_confidence ?d = Some (Num (4/5))"
    by (simp add: example_data_def)
  have updated: "updateConfidence 7 (Some (Num (1/4))) ?a = (None, ?a')"
    by (simp add: updateConfidence_def)
  have bad: "data_confidence ?bad = Some (Num (3/2)) \<and> ((3/2 :: real) < 0 \<or> (3/2 :: real) > 1)"
    by (simp add: example_data_def)
  have neg: "(-1 :: real) < 0 \<or> (-1 :: real) > 1"
    by simp
  show ?thesis
    using confidence_range [of 0 ?d ?a "4/5" 7 "1/4" ?a ?a']
      confidence_range [of 0 ?bad ?a "3/2" 7 "-1" ?a ?a]
      valid supplied updated bad neg
    by simp
qed

text \<open>
  What the claim of C5 does not hold for: a construction input without confidence is
  valid and the stored confidence is \<open>undefined\<close>; a confidence of \<open>NaN\<close> passes the
  range check of the constructor and of \<open>updateConfidence\<close>, since both comparisons
  are false, and is stored; \<open>updateConfidence\<close> called without an argument stores
  \<open>undefined\<close>.
\<close>

theorem omitted_confidence_counterexample:
  "new_Argument 0 (example_data ''a'' ''thesis'' None [] [] None)
     = Inr (example_argument ''a'' ''thesis'' None [] [] None) \<and>
   \<not> in_unit_interval (toNumber (confidence (example_argument ''a'' ''thesis'' None [] [] None))) \<and>
   new_Argument 0 ((example_data ''a'' ''thesis'' None [] [] None)\<lparr>data_confidence := Some NaN\<rparr>)
     = Inr ((example_argument ''a'' ''thesis'' None [] [] None)\<lparr>confidence := Some NaN\<rparr>) \<and>
   \<not> in_unit_interval (toNumber (confidence
       ((example_argument ''a'' ''thesis'' None [] [] None)\<lparr>confidence := Some NaN\<rparr>))) \<and>
   updateConfidence 7 (Some NaN) (example_argument ''a'' ''thesis'' (Some (4/5)) [] [] None)
     = (None, (example_argument ''a'' ''thesis'' (Some (4/5)) [] [] None)
                \<lparr>confidence := Some NaN, lastModified := 7\<rparr>) \<and>
   updateConfidence 7 None (example_argument ''a'' ''thesis'' (Some (4/5)) [] [] None)
     = (None, (example_argument ''a'' ''thesis'' (Some (4/5)) [] [] None)
                \<lparr>confidence := None, lastModified := 7\<rparr>) \<and>
   \<not> in_unit_interval (toNumber (confidence
       (snd (updateConfidence 7 (Some NaN)
          (example_argument ''a'' ''thesis'' (Some (4/5)) [] [] None)))))"
proof -
  have omitted: "new_Argument 0 (example_data ''a'' ''thesis'' None [] [] None)
      = Inr (example_argument ''a'' ''thesis'' None [] [] None)"
    using new_Argument_example [of "''thesis''" "''a''" None "[]" "[]" None]
    by (simp add: validTypes_def)
  have nan: "new_Argument 0
        ((example_data ''a'' ''thesis'' None [] [] None)\<lparr>data_confidence := Some NaN\<rparr>)
      = Inr ((example_argument ''a'' ''thesis'' None [] [] None)\<lparr>confidence := Some NaN\<rparr>)"
    by (simp add: new_Argument_def validateArgument_def example_data_def example_argument_def
        validTypes_def)
  show ?thesis
    using omitted nan by (simp add: updateConfidence_def example_argument_def)
qed

section \<open>Properties of the numbers\<close>

lemma jadd_NaN [simp]: "jadd x NaN = NaN" "jadd NaN x = NaN"
  by (cases x; simp)+

lemma jsub_NaN [simp]: "jsub x NaN = NaN" "jsub NaN x = NaN"
  by (cases x; simp)+

lemma jmul_NaN [simp]: "jmul x NaN = NaN" "jmul NaN x = NaN"
  by (cases x; simp)+

lemma Math_min_NaN [simp]: "Math_min x NaN = NaN" "Math_min NaN x = NaN"
  by (cases x; simp)+

lemma Math_max_NaN [simp]: "Math_max x NaN = NaN" "Math_max NaN x = NaN"
  by (cases x; simp)+

section \<open>Properties of getSupporters\<close>

lemma graph_ab_eq:
  "graph_ab = \<lparr>
     arguments =
       [(''a'', example_argument ''a'' ''thesis'' (Some (1/2)) [] [] None),
        (''b'', example_argument ''b'' ''antithesis'' (Some (1/2)) [] [] None)],
     adjacencyList = [(''a'', empty_rel), (''b'', empty_rel)] \<rparr>"
proof -
  let ?da = "example_data ''a'' ''thesis'' (Some (1/2)) [] [] None"
  let ?a = "example_argument ''a'' ''thesis'' (Some (1/2)) [] [] None"
  let ?db = "example_data ''b'' ''antithesis'' (Some (1/2)) [] [] None"
  let ?b = "example_argument ''b'' ''antithesis'' (Some (1/2)) [] [] None"
  let ?g = "\<lparr>arguments = [(''a'', ?a)], adjacencyList = [(''a'', empty_rel)]\<rparr>"
  have va: "new_Argument 0 ?da = Inr ?a"
    using new_Argument_example [of "''thesis''" "''a''" "Some (1/2)" "[]" "[]" None]
    by (simp add: validTypes_def)
  have fa: "\<not> Map_has (arg_id ?a) (arguments new_ArgumentGraph)"
    by (simp add: Map_has_def new_ArgumentGraph_def)
  have ga: "snd (addArgument 0 ?da new_ArgumentGraph) = ?g"
    using addArgument_fresh [OF va fa]
    by (simp add: registered_edges_def references_def responds_ref_def example_argument_def
        new_ArgumentGraph_def empty_rel_def)
  have vb: "new_Argument 0 ?db = Inr ?b"
    using new_Argument_example [of "''antithesis''" "''b''" "Some (1/2)" "[]" "[]" None]
    by (simp add: validTypes_def)
  have fb: "\<not> Map_has (arg_id ?b) (arguments ?g)"
    by (simp add: Map_has_def example_argument_def)
  have "snd (addArgument 0 ?db ?g) =
      \<lparr>arguments = [(''a'', ?a), (''b'', ?b)],
       adjacencyList = [(''a'', empty_rel), (''b'', empty_rel)]\<rparr>"
    using addArgument_fresh [OF vb fb]
    by (simp add: registered_edges_def references_def responds_ref_def example_argument_def
        empty_rel_def)
  then show ?thesis
    by (simp add: graph_ab_def ga)
qed

text \<open>
  C4 at the failing input. In the graph that holds \<open>a\<close> and \<open>b\<close>,
  \<open>addSupportsRelationship(b, a)\<close> succeeds and the relationship record of \<open>b\<close> then
  holds a supports edge to \<open>a\<close>, but \<open>getSupporters(a)\<close> is empty: it reads the
  \<open>supports\<close> list of the Argument objects, which the call does not change.
\<close>

theorem getSupporters_misses_registered_edge:
  "fst (addSupportsRelationship ''b'' ''a'' graph_ab) = None \<and>
   map_of (adjacencyList (snd (addSupportsRelationship ''b'' ''a'' graph_ab))) ''b''
     = Some \<lparr>rel_supports = [''a''], rel_contradicts = [], rel_respondsTo = None\<rparr> \<and>
   getSupporters (snd (addSupportsRelationship ''b'' ''a'' graph_ab)) ''a'' = []"
  by (simp add: graph_ab_eq addSupportsRelationship_def both_exist_def Map_has_def
      getSupporters_def Map_values_def example_argument_def empty_rel_def)

section \<open>Properties of Evaluator\<close>

lemma extractKeywords_so_be_it: "extractKeywords ''so be it'' = []"
  by (simp add: extractKeywords_def split_nonword_def toLowerCase_def toLowerCase_char_def
      is_word_char_def stopWords_def)

lemma evaluateLogicalStructure_no_keywords:
  "extractKeywords (conclusion a) = [] \<Longrightarrow> evaluateLogicalStructure rx a = NaN"
  by (simp add: evaluateLogicalStructure_def Let_def of_length_def)

text \<open>
  Where the claim of C6 holds: when the conclusion has a keyword and every supporter has a
  numeric confidence, the four scores are numbers between 0 and 1.
\<close>

lemma clamp_in_unit_interval:
  "in_unit_interval (Math_max (Num 0) (Math_min (Num 1) (Num x)))"
  by simp

lemma evaluateLogicalStructure_in_range:
  assumes "extractKeywords (conclusion a) \<noteq> []"
  shows "in_unit_interval (evaluateLogicalStructure rx a)"
proof -
  have "\<exists>x. evaluateLogicalStructure rx a = Math_max (Num 0) (Math_min (Num 1) (Num x))"
    using assms by (auto simp add: evaluateLogicalStructure_def Let_def of_length_def)
  then show ?thesis
    using clamp_in_unit_interval by auto
qed

lemma evidence_fold:
  "0 \<le> s \<Longrightarrow> \<exists>s'. foldl (evidence_step rx) (Num s) ps = Num s' \<and> 0 \<le> s'"
proof (induction ps arbitrary: s)
  case Nil
  then show ?case by simp
next
  case (Cons p ps)
  have "\<exists>t. evidence_step rx (Num s) p = Num t \<and> 0 \<le> t"
    using Cons.prems by (simp add: evidence_step_def Let_def)
  then obtain t where "evidence_step rx (Num s) p = Num t" and "0 \<le> t" by blast
  with Cons.IH [of t] show ?case by simp
qed

lemma evaluateEvidence_in_range: "in_unit_interval (evaluateEvidence rx a)"
proof -
  obtain s where "foldl (evidence_step rx) (Num 0) (arg_premises a) = Num s" and "0 \<le> s"
    using evidence_fold [of 0 rx "arg_premises a"] by auto
  then show ?thesis
    by (simp add: evaluateEvidence_def)
qed

lemma confidence_fold:
  "list_all (\<lambda>x. toNumber (confidence x) \<noteq> NaN) xs \<Longrightarrow>
   \<exists>s'. foldl (\<lambda>acc curr. jadd acc (toNumber (confidence curr))) (Num s) xs = Num s'"
proof (induction xs arbitrary: s)
  case Nil
  then show ?case by simp
next
  case (Cons x xs)
  then obtain c where "toNumber (confidence x) = Num c"
    by (cases "toNumber (confidence x)") auto
  with Cons show ?case by simp
qed

lemma evaluateSupport_in_range:
  assumes "list_all (\<lambda>x. toNumber (confidence x) \<noteq> NaN) (getSupporters g (arg_id a))"
  shows "in_unit_interval (evaluateSupport a g)"
proof -
  obtain s where s: "foldl (\<lambda>acc curr. jadd acc (toNumber (confidence curr))) (Num 0)
      (getSupporters g (arg_id a)) = Num s"
    using confidence_fold [OF assms, of 0] by auto
  have "\<exists>x. evaluateSupport a g = Math_max (Num 0) (Math_min (Num 1) (Num x))"
    by (auto simp add: evaluateSupport_def Let_def of_length_def s)
  then show ?thesis
    using clamp_in_unit_interval by auto
qed

lemma calculateOverallScore_in_range:
  assumes "in_unit_interval (logicalScore ev)" "in_unit_interval (evidenceScore ev)"
    "in_unit_interval (supportScore ev)"
  shows "in_unit_interval (calculateOverallScore ev)"
proof -
  obtain l e s where "logicalScore ev = Num l" "evidenceScore ev = Num e" "supportScore ev = Num s"
    using assms
    by (cases "logicalScore ev"; cases "evidenceScore ev"; cases "supportScore ev") auto
  then show ?thesis
    using assms by (simp add: calculateOverallScore_def)
qed

lemma evaluateArgument_in_range:
  assumes "extractKeywords (conclusion a) \<noteq> []"
    and "list_all (\<lambda>x. toNumber (confidence x) \<noteq> NaN) (getSupporters g (arg_id a))"
  shows "in_unit_interval (logicalScore (evaluateArgument rx a g)) \<and>
         in_unit_interval (evidenceScore (evaluateArgument rx a g)) \<and>
         in_unit_interval (supportScore (evaluateArgument rx a g)) \<and>
         in_unit_interval (score (evaluateArgument rx a g))"
proof -
  let ?ev = "\<lparr>ev_strengths = [], ev_weaknesses = [], score = Num 0,
              supportScore = evaluateSupport a g,
              logicalScore = evaluateLogicalStructure rx a,
              evidenceScore = evaluateEvidence rx a\<rparr>"
  have "in_unit_interval (calculateOverallScore ?ev)"
    by (rule calculateOverallScore_in_range)
       (simp_all add: evaluateLogicalStructure_in_range [OF assms(1)] evaluateEvidence_in_range
          evaluateSupport_in_range [OF assms(2)])
  then show ?thesis
    using evaluateLogicalStructure_in_range [OF assms(1), of rx] evaluateEvidence_in_range [of rx a]
      evaluateSupport_in_range [OF assms(2)]
    by (simp add: evaluateArgument_def Let_def calculateOverallScore_def)
qed

text \<open>
  C6 at the failing input. For an argument whose conclusion has no keyword, whatever the
  regular expressions match and whatever the graph holds, \<open>logicalScore\<close> is \<open>0 / 0\<close>,
  that is \<open>NaN\<close>, which the clamp \<open>Math.max(0, Math.min(1, score))\<close> lets through, and
  the overall score is \<open>NaN\<close> as well: neither is a number between 0 and 1.
\<close>

theorem evaluateArgument_no_keywords_NaN:
  "extractKeywords (conclusion no_keyword_argument) = [] \<and>
   logicalScore (evaluateArgument rx no_keyword_argument g) = NaN \<and>
   score (evaluateArgument rx no_keyword_argument g) = NaN \<and>
   \<not> in_unit_interval (logicalScore (evaluateArgument rx no_keyword_argument g)) \<and>
   \<not> in_unit_interval (score (evaluateArgument rx no_keyword_argument g))"
proof -
  have k: "extractKeywords (conclusion no_keyword_argument) = []"
    by (simp add: no_keyword_argument_def extractKeywords_so_be_it)
  have l: "logicalScore (evaluateArgument rx no_keyword_argument g) = NaN"
    by (simp add: evaluateArgument_def Let_def evaluateLogicalStructure_no_keywords [OF k])
  have s: "score (evaluateArgument rx no_keyword_argument g) = NaN"
    by (simp add: evaluateArgument_def Let_def calculateOverallScore_def
        evaluateLogicalStructure_no_keywords [OF k])
  show ?thesis
    using k l s by simp
qed

section \<open>Properties of DialecticalEngine\<close>

text \<open>
  What \<open>getCurrentContext\<close> returns: when every argument of the graph has a type that is
  a key of the context object, the ids of each key's type in insertion order; a
  \<open>TypeError\<close> otherwise. The types \<open>objection\<close> and \<open>rebuttal\<close> are not among the
  keys.
\<close>

lemma Map_set_append:
  "distinct (map fst m) \<Longrightarrow> map_of m k = Some ids \<Longrightarrow>
   Map_set k (ids @ [x]) m = map (\<lambda>(k', v'). (k', if k' = k then v' @ [x] else v')) m"
proof (induction m)
  case Nil
  then show ?case by simp
next
  case (Cons kv m)
  obtain k' v' where kv: "kv = (k', v')" by (cases kv)
  show ?case
  proof (cases "k' = k")
    case True
    then have "k \<notin> fst ` set m" using Cons.prems(1) kv by auto
    then have "map (\<lambda>(k', v'). (k', if k' = k then v' @ [x] else v')) m = m"
      by (induction m) auto
    then show ?thesis using True kv Cons.prems(2) by simp
  next
    case False
    then show ?thesis using kv Cons by simp
  qed
qed

lemma push_ids_eq:
  "distinct (map fst ctx) \<Longrightarrow> list_all (\<lambda>a. arg_type a \<in> set (map fst ctx)) args \<Longrightarrow>
   push_ids args ctx =
     Inr (map (\<lambda>(k, ids). (k, ids @ map arg_id (filter (\<lambda>a. arg_type a = k) args))) ctx)"
proof (induction args arbitrary: ctx)
  case Nil
  then show ?case by simp
next
  case (Cons a args)
  have "arg_type a \<in> fst ` set ctx"
    using Cons.prems(2) by simp
  then obtain ids where ids: "map_of ctx (arg_type a) = Some ids"
    by (cases "map_of ctx (arg_type a)") (auto simp: map_of_eq_None_iff)
  let ?G = "\<lambda>(k', v'). (k', if k' = arg_type a then v' @ [arg_id a] else v')"
  have step: "Map_set (arg_type a) (ids @ [arg_id a]) ctx = map ?G ctx"
    using Map_set_append [OF Cons.prems(1) ids] .
  have keys: "map fst (map ?G ctx) = map fst ctx"
    by (induction ctx) auto
  have d': "distinct (map fst (map ?G ctx))"
    using Cons.prems(1) by (simp only: keys)
  have "list_all (\<lambda>a. arg_type a \<in> set (map fst ctx)) args"
    using Cons.prems(2) by simp
  then have l': "list_all (\<lambda>a. arg_type a \<in> set (map fst (map ?G ctx))) args"
    by (simp only: keys)
  have "push_ids args (map ?G ctx) =
      Inr (map (\<lambda>(k, ids). (k, ids @ map arg_id (filter (\<lambda>a. arg_type a = k) args))) (map ?G ctx))"
    using d' l' by (rule Cons.IH)
  then show ?case
    using ids step by (simp add: case_prod_unfold comp_def)
qed

lemma push_ids_unknown_type:
  "\<not> list_all (\<lambda>a. arg_type a \<in> set (map fst ctx)) args \<Longrightarrow> push_ids args ctx = Inl TypeError"
proof (induction args arbitrary: ctx)
  case Nil
  then show ?case by simp
next
  case (Cons a args)
  show ?case
  proof (cases "map_of ctx (arg_type a)")
    case None
    then show ?thesis by simp
  next
    case (Some ids)
    then have mem: "arg_type a \<in> set (map fst ctx)"
      by (metis map_of_eq_None_iff option.distinct(1) set_map)
    have same: "set (map fst (Map_set (arg_type a) (ids @ [arg_id a]) ctx)) = set (map fst ctx)"
      using mem by (simp only: set_fst_Map_set) auto
    have "\<not> list_all (\<lambda>b. arg_type b \<in> set (map fst ctx)) args"
      using Cons.prems mem by simp
    then have "\<not> list_all (\<lambda>b. arg_type b
        \<in> set (map fst (Map_set (arg_type a) (ids @ [arg_id a]) ctx))) args"
      unfolding same .
    from Cons.IH [OF this] show ?thesis
      using Some by simp
  qed
qed

lemma getCurrentContext_cases:
  "getCurrentContext e =
     (if list_all (\<lambda>a. arg_type a \<in> set context_keys) (Map_values (arguments (graph e)))
      then Inr (map (\<lambda>k. (k, map arg_id (getArgumentsByType (graph e) k))) context_keys)
      else Inl TypeError)"
proof (cases "list_all (\<lambda>a. arg_type a \<in> set context_keys) (Map_values (arguments (graph e)))")
  case True
  let ?ctx = "[(''thesis'', []), (''antithesis'', []), (''synthesis'', []), (''objections'', []),
        (''rebuttals'', [])] :: (string \<times> string list) list"
  have d: "distinct (map fst ?ctx)" by simp
  have k: "list_all (\<lambda>a. arg_type a \<in> set (map fst ?ctx)) (Map_values (arguments (graph e)))"
    using True by (simp add: context_keys_def)
  show ?thesis
    using True push_ids_eq [OF d k]
    by (simp add: getCurrentContext_def context_keys_def getArgumentsByType_def)
next
  case False
  let ?ctx = "[(''thesis'', []), (''antithesis'', []), (''synthesis'', []), (''objections'', []),
        (''rebuttals'', [])] :: (string \<times> string list) list"
  have "\<not> list_all (\<lambda>a. arg_type a \<in> set (map fst ?ctx)) (Map_values (arguments (graph e)))"
    using False by (simp add: context_keys_def)
  from push_ids_unknown_type [OF this] show ?thesis
    using False by (simp add: getCurrentContext_def)
qed

lemma engine_addArgument_cases:
  assumes "addArgument now argData (graph e) = (Inr a, g')"
  shows "engine_addArgument now now' argData e =
     (if list_all (\<lambda>a. arg_type a \<in> set context_keys) (Map_values (arguments g'))
      then (Inr a, e\<lparr>graph := g',
              dialecticHistory := dialecticHistory e @
                [\<lparr>timestamp = now', action = ''added'', entry_argumentId = arg_id a,
                  entry_argumentType = arg_type a,
                  entry_context = map (\<lambda>k. (k, map arg_id (getArgumentsByType g' k))) context_keys\<rparr>]\<rparr>)
      else (Inl TypeError, e\<lparr>graph := g'\<rparr>))"
  using assms by (simp add: engine_addArgument_def getCurrentContext_cases)

text \<open>
  C3 at the failing input. Adding a valid objection to a new engine: the graph stores the
  argument, then \<open>getCurrentContext\<close> reads the key \<open>objection\<close> of a context whose key
  is \<open>objections\<close> and throws a \<open>TypeError\<close>; no history record is appended.
\<close>

theorem engine_addArgument_objection_throws:
  "engine_addArgument 0 1 (example_data ''o'' ''objection'' (Some (1/2)) [] [] None)
     new_DialecticalEngine =
   (Inl TypeError,
    \<lparr>graph = \<lparr>arguments = [(''o'', example_argument ''o'' ''objection'' (Some (1/2)) [] [] None)],
              adjacencyList = [(''o'', empty_rel)]\<rparr>,
     dialecticHistory = []\<rparr>)"
proof -
  let ?d = "example_data ''o'' ''objection'' (Some (1/2)) [] [] None"
  let ?a = "example_argument ''o'' ''objection'' (Some (1/2)) [] [] None"
  let ?g = "\<lparr>arguments = [(''o'', ?a)], adjacencyList = [(''o'', empty_rel)]\<rparr>"
  have valid: "new_Argument 0 ?d = Inr ?a"
    using new_Argument_example [of "''objection''" "''o''" "Some (1/2)" "[]" "[]" None]
    by (simp add: validTypes_def)
  have fresh: "\<not> Map_has (arg_id ?a) (arguments new_ArgumentGraph)"
    by (simp add: Map_has_def new_ArgumentGraph_def)
  have added: "addArgument 0 ?d new_ArgumentGraph = (Inr ?a, ?g)"
    using addArgument_fresh [OF valid fresh]
    by (simp add: registered_edges_def references_def responds_ref_def example_argument_def
        new_ArgumentGraph_def empty_rel_def)
  have ctx: "getCurrentContext \<lparr>graph = ?g, dialecticHistory = []\<rparr> = Inl TypeError"
    by (simp add: getCurrentContext_def Map_values_def example_argument_def)
  show ?thesis
    using added ctx by (simp add: engine_addArgument_def new_DialecticalEngine_def)
qed

text \<open>
  C7. \<open>DialecticalEngine.generateSynthesis\<close> fails with \<open>UnknownReferenceError\<close> when
  either id is absent from the engine's graph. When both are present it returns a draft of
  type synthesis whose confidence is \<open>Math.min(thesis.confidence, antithesis.confidence)
  + 0.1\<close>, which for two numbers \<open>x\<close> and \<open>y\<close> is \<open>min x y + 0.1\<close>, with no clamp.
\<close>

theorem engine_generateSynthesis_confidence:
  "(getArgument (graph e) t = None \<or> getArgument (graph e) an = None \<longrightarrow>
      engine_generateSynthesis e t an = Inl UnknownReferenceError) \<and>
   (getArgument (graph e) t = Some thesis \<and> getArgument (graph e) an = Some antithesis \<longrightarrow>
      (\<exists>d. engine_generateSynthesis e t an = Inr d \<and> draft_type d = ''synthesis'' \<and>
           draft_confidence d =
             jadd (Math_min (toNumber (confidence thesis)) (toNumber (confidence antithesis)))
                  (Num (1/10)) \<and>
           (confidence thesis = Some (Num x) \<and> confidence antithesis = Some (Num y) \<longrightarrow>
              draft_confidence d = Num (min x y + 1/10))))"
  by (auto simp: engine_generateSynthesis_def Let_def split: option.splits)

theorem engine_generateSynthesis_confidence_witness:
  "map_sum id draft_confidence
     (engine_generateSynthesis (engine_with (Some (9/10)) (Some (95/100))) ''t'' ''a'')
     = Inr (Num 1) \<and>
   map_sum id draft_confidence
     (engine_generateSynthesis (engine_with (Some (95/100)) (Some 1)) ''t'' ''a'')
     = Inr (Num (105/100)) \<and>
   engine_generateSynthesis (engine_with (Some (9/10)) (Some (95/100))) ''t'' ''b''
     = Inl UnknownReferenceError"
proof -
  let ?e = "engine_with (Some (9/10)) (Some (95/100))"
  let ?e' = "engine_with (Some (95/100)) (Some 1)"
  have t: "getArgument (graph (engine_with x y)) ''t''
      = Some (example_argument ''t'' ''thesis'' x [] [] None)" for x y
    by (simp add: getArgument_def engine_with_def)
  have a: "getArgument (graph (engine_with x y)) ''a''
      = Some (example_argument ''a'' ''antithesis'' y [] [] (Some ''t''))" for x y
    by (simp add: getArgument_def engine_with_def)
  have b: "getArgument (graph ?e) ''b'' = None"
    by (simp add: getArgument_def engine_with_def)
  have c: "confidence (example_argument i ty z sups cons resp) = map_option Num z"
    for i ty z sups cons resp
    by (simp add: example_argument_def)
  from engine_generateSynthesis_confidence
         [of ?e "''t''" "''a''" "example_argument ''t'' ''thesis'' (Some (9/10)) [] [] None"
             "example_argument ''a'' ''antithesis'' (Some (95/100)) [] [] (Some ''t'')"
             "9/10" "95/100"]
  have 1: "map_sum id draft_confidence (engine_generateSynthesis ?e ''t'' ''a'') = Inr (Num 1)"
    using t a c by auto
  from engine_generateSynthesis_confidence
         [of ?e' "''t''" "''a''" "example_argument ''t'' ''thesis'' (Some (95/100)) [] [] None"
             "example_argument ''a'' ''antithesis'' (Some 1) [] [] (Some ''t'')"
             "95/100" "1"]
  have 2: "map_sum id draft_confidence (engine_generateSynthesis ?e' ''t'' ''a'')
      = Inr (Num (105/100))"
    using t a c by auto
  from engine_generateSynthesis_confidence [of ?e "''t''" "''b''"]
  have 3: "engine_generateSynthesis ?e ''t'' ''b'' = Inl UnknownReferenceError"
    using b by simp
  show ?thesis
    using 1 2 3 by simp
qed

section \<open>Properties of findSynthesisCandidates\<close>

lemma radd_NaN [simp]: "radd rnd x NaN = NaN" "radd rnd NaN x = NaN"
  by (cases x; simp)+

lemma rsub_NaN [simp]: "rsub rnd x NaN = NaN" "rsub rnd NaN x = NaN"
  by (cases x; simp)+

lemma rmul_NaN [simp]: "rmul rnd x NaN = NaN" "rmul rnd NaN x = NaN"
  by (cases x; simp)+






lemma mset_insert_candidate [simp]: "mset (insert_candidate x ys) = add_mset x (mset ys)"
  by (induction ys) auto

lemma set_insert_candidate [simp]: "set (insert_candidate x ys) = insert x (set ys)"
  by (induction ys) auto














section \<open>Properties of Synthesizer\<close>

lemma generateSynthesis_parameters_refused:
  "\<not> strict_parameters_ok [''arguments'', ''graph'']"
  by (simp add: strict_parameters_ok_def)

lemma require_Synthesizer_fails: "require_Synthesizer = Some SyntaxError"
  by (simp add: require_Synthesizer_def class_early_error_def Synthesizer_methods_def
      strict_parameters_ok_def)

text \<open>
  C9 at the failing input. \<open>generateSynthesis\<close> and seven more methods of the class
  name a formal parameter \<open>arguments\<close>, which strict mode code may not do, so the class
  is refused with a \<open>SyntaxError\<close> when its module is loaded. Whatever the statements
  of the method would return, for every list of arguments and every graph, a call of
  \<open>Synthesizer.generateSynthesis\<close> ends in that \<open>SyntaxError\<close>: with no argument it
  does not fail with \<open>InvalidInputError\<close>, and with two it returns no draft.
\<close>

theorem Synthesizer_generateSynthesis_SyntaxError:
  "Synthesizer_generateSynthesis body args g = Inl SyntaxError \<and>
   Synthesizer_generateSynthesis body [] g \<noteq> Inl InvalidInputError \<and>
   Synthesizer_generateSynthesis body
     [example_argument ''t'' ''thesis'' (Some (1/2)) [] [] None,
      example_argument ''a'' ''antithesis'' (Some (1/2)) [] [] (Some ''t'')] g \<noteq> Inr r"
  by (simp add: Synthesizer_generateSynthesis_def require_Synthesizer_fails)

end
